theory Spec2Isabelle
  imports Complex_Main
begin

section \<open>Common Python notions\<close>

text \<open>
  Exceptions are values: the class of the exception and, where the source gives one,
  its message. A function that may raise returns \<open>exn + 'a\<close>, \<open>Inl\<close> being the raise.
  Python floats are modelled by exact rationals: the rounding of IEEE arithmetic is not
  part of the model.
\<close>

datatype exn =
    Exception string
  | ValueError string
  | ZeroDivisionError
  | OSError
  | JSONDecodeError
  | Cv2Error

text \<open>\<^verbatim>\<open>d.get(k, default)\<close> on a dictionary.\<close>

definition dict_get :: "('k \<rightharpoonup> 'v) \<Rightarrow> 'k \<Rightarrow> 'v \<Rightarrow> 'v" where
  "dict_get d k dflt = (case d k of None \<Rightarrow> dflt | Some v \<Rightarrow> v)"

text \<open>\<^verbatim>\<open>a / b\<close> on floats: a zero divisor raises.\<close>

definition truediv :: "rat \<Rightarrow> rat \<Rightarrow> exn + rat" where
  "truediv a b = (if b = 0 then Inl ZeroDivisionError else Inr (a / b))"



section \<open>cost\_tracker.py: the cost ledger\<close>

text \<open>
  The JSON document \<^verbatim>\<open>_save\<close> writes to \<^verbatim>\<open>persist_path\<close>, and the tracker: its four
  attributes and the current content of the file (\<open>None\<close>: no file yet).
\<close>

record cost_file =
  file_total_cost :: rat
  file_breakdown :: "string \<rightharpoonup> rat"
  file_api_calls :: int
  file_cache_hits :: int
  file_last_updated :: string

record CostTracker =
  total_cost :: rat
  breakdown :: "string \<rightharpoonup> rat"
  api_calls :: int
  cache_hits :: int
  persisted :: "cost_file option"

text \<open>
  What one call sees of the outside world: the clock (\<^verbatim>\<open>datetime.now().isoformat()\<close>) and
  whether \<^verbatim>\<open>open(persist_path, 'w')\<close> succeeds.
\<close>

record io =
  now_iso :: string
  write_ok :: bool

definition COST_PER_1K_TOKENS :: "string \<rightharpoonup> rat" where
  "COST_PER_1K_TOKENS = map_of
     [(''gemini-3-pro-preview'', 125 / 1000),
      (''gemini-1.5-flash'', 1875 / 100000000),
      (''gemini-2.5-flash-image'', 3 / 10000),
      (''imagen-4.0-generate-001'', 4 / 100),
      (''imagen-3.0-generate-001'', 2 / 100),
      (''local_llm'', 0)]"

text \<open>
  \<^verbatim>\<open>_save\<close>: the file receives the four attributes and the time. When the file cannot
  be opened the exception leaves the method and the file is as it was.
\<close>

definition save :: "io \<Rightarrow> CostTracker \<Rightarrow> (exn + unit) \<times> CostTracker" where
  "save w s =
     (if write_ok w
      then (Inr (),
            s\<lparr>persisted := Some \<lparr>file_total_cost = total_cost s,
                                  file_breakdown = breakdown s,
                                  file_api_calls = api_calls s,
                                  file_cache_hits = cache_hits s,
                                  file_last_updated = now_iso w\<rparr>\<rparr>)
      else (Inl OSError, s))"

text \<open>
  The tail shared by the three cost-recording methods: add the cost to the total, count
  the call, add the cost to the bucket \<open>key\<close>, save, return the cost. An exception of
  \<^verbatim>\<open>_save\<close> leaves the method after the attributes have been updated.
\<close>

definition add_cost :: "io \<Rightarrow> string \<Rightarrow> rat \<Rightarrow> CostTracker \<Rightarrow> (exn + rat) \<times> CostTracker" where
  "add_cost w key cost s =
     (let s1 = s\<lparr>total_cost := total_cost s + cost, api_calls := api_calls s + 1\<rparr>;
          s2 = s1\<lparr>breakdown := (breakdown s1)(key \<mapsto> dict_get (breakdown s1) key 0 + cost)\<rparr>
      in case save w s2 of
           (Inl e, s3) \<Rightarrow> (Inl e, s3)
         | (Inr _, s3) \<Rightarrow> (Inr cost, s3))"

definition record_analysis ::
  "io \<Rightarrow> string \<Rightarrow> string \<Rightarrow> int \<Rightarrow> CostTracker \<Rightarrow> (exn + rat) \<times> CostTracker" where
  "record_analysis w provider model tokens s =
     (let cost = (if provider = ''local_llm'' then 0
                  else (of_int tokens / 1000) * dict_get COST_PER_1K_TOKENS model (5 / 100))
      in add_cost w (''analysis_'' @ provider) cost s)"

definition record_chat ::
  "io \<Rightarrow> string \<Rightarrow> int \<Rightarrow> CostTracker \<Rightarrow> (exn + rat) \<times> CostTracker" where
  "record_chat w provider tokens s =
     (let cost = (if provider = ''local_llm'' then 0
                  else (of_int tokens / 1000)
                       * dict_get COST_PER_1K_TOKENS ''gemini-1.5-flash'' (1875 / 100000000))
      in add_cost w (''chat_'' @ provider) cost s)"

definition record_image_generation ::
  "io \<Rightarrow> string \<Rightarrow> string \<Rightarrow> CostTracker \<Rightarrow> (exn + rat) \<times> CostTracker" where
  "record_image_generation w provider model s =
     (let cost = dict_get COST_PER_1K_TOKENS model (2 / 100)
      in add_cost w ''image_generation'' cost s)"

definition record_cache_hit ::
  "io \<Rightarrow> string \<Rightarrow> CostTracker \<Rightarrow> (exn + unit) \<times> CostTracker" where
  "record_cache_hit w operation s = save w (s\<lparr>cache_hits := cache_hits s + 1\<rparr>)"

definition reset :: "io \<Rightarrow> CostTracker \<Rightarrow> (exn + unit) \<times> CostTracker" where
  "reset w s =
     save w (s\<lparr>total_cost := 0, breakdown := Map.empty, api_calls := 0, cache_hits := 0\<rparr>)"


definition is_budget_exceeded :: "rat \<Rightarrow> CostTracker \<Rightarrow> bool" where
  "is_budget_exceeded monthly_budget s \<longleftrightarrow> monthly_budget < total_cost s"


text \<open>
  The recording operations as data, for sequences of calls. Each call comes with what it
  sees of the outside world; a call that raises has still changed the tracker, and the
  next call of the sequence starts from there.
\<close>

datatype ledger_op =
    Analysis string string int
  | Chat string int
  | ImageGeneration string string
  | CacheHit string

fun tokens_of :: "ledger_op \<Rightarrow> int" where
  "tokens_of (Analysis provider model tokens) = tokens"
| "tokens_of (Chat provider tokens) = tokens"
| "tokens_of (ImageGeneration provider model) = 0"
| "tokens_of (CacheHit operation) = 0"

fun record_op :: "io \<times> ledger_op \<Rightarrow> CostTracker \<Rightarrow> CostTracker" where
  "record_op (w, Analysis provider model tokens) s = snd (record_analysis w provider model tokens s)"
| "record_op (w, Chat provider tokens) s = snd (record_chat w provider tokens s)"
| "record_op (w, ImageGeneration provider model) s = snd (record_image_generation w provider model s)"
| "record_op (w, CacheHit operation) s = snd (record_cache_hit w operation s)"

fun record_all :: "(io \<times> ledger_op) list \<Rightarrow> CostTracker \<Rightarrow> CostTracker" where
  "record_all [] s = s"
| "record_all (c # cs) s = record_all cs (record_op c s)"

section \<open>cache\_manager.py: the result cache\<close>

text \<open>
  The backing store is the \<^verbatim>\<open>diskcache.Cache\<close> of the library, modelled by its contract:
  an entry holds a value and an optional expiry time; \<^verbatim>\<open>set(key, value, expire=e)\<close>
  stores the expiry time \<open>now + e\<close>, \<^verbatim>\<open>set(key, value)\<close> stores none; \<^verbatim>\<open>get(key)\<close> gives the
  value of an entry that has no expiry time or whose expiry time lies after \<open>now\<close>, and
  \<^verbatim>\<open>None\<close> otherwise; \<^verbatim>\<open>delete(key)\<close> removes such an entry and tells whether there was one. A Python value is an \<open>option\<close>, \<open>None\<close> being Python's \<^verbatim>\<open>None\<close>.
  Any call on the store may raise (the directory is unreachable, the database is locked).
\<close>

type_synonym 'v disk = "string \<rightharpoonup> ('v option \<times> rat option)"

definition disk_get :: "rat \<Rightarrow> 'v disk \<Rightarrow> string \<Rightarrow> 'v option" where
  "disk_get now d key =
     (case d key of
        None \<Rightarrow> None
      | Some (value, None) \<Rightarrow> value
      | Some (value, Some expire_time) \<Rightarrow> (if now < expire_time then value else None))"

definition disk_live :: "rat \<Rightarrow> 'v disk \<Rightarrow> string \<Rightarrow> bool" where
  "disk_live now d key =
     (case d key of
        None \<Rightarrow> False
      | Some (value, None) \<Rightarrow> True
      | Some (value, Some expire_time) \<Rightarrow> now < expire_time)"

definition disk_set :: "rat \<Rightarrow> 'v disk \<Rightarrow> string \<Rightarrow> 'v option \<Rightarrow> int option \<Rightarrow> 'v disk" where
  "disk_set now d key value expire =
     d(key \<mapsto> (value, case expire of None \<Rightarrow> None | Some e \<Rightarrow> Some (now + of_int e)))"

text \<open>The manager: the store and the three in-memory counters of \<^verbatim>\<open>self.stats\<close>.\<close>

record 'v CacheManager =
  cache :: "'v disk"
  hits :: nat
  misses :: nat
  sets :: nat

text \<open>What one call sees of the outside world: the time and whether the store answers.\<close>

record store_io =
  time_now :: rat
  store_ok :: bool

definition CacheManager_get ::
  "store_io \<Rightarrow> string \<Rightarrow> 'v CacheManager \<Rightarrow> 'v option \<times> 'v CacheManager" where
  "CacheManager_get w key m =
     (if store_ok w
      then (let value = disk_get (time_now w) (cache m) key
            in if value \<noteq> None then (value, m\<lparr>hits := hits m + 1\<rparr>)
               else (value, m\<lparr>misses := misses m + 1\<rparr>))
      else (None, m))"

definition CacheManager_set ::
  "store_io \<Rightarrow> string \<Rightarrow> 'v option \<Rightarrow> int option \<Rightarrow> 'v CacheManager \<Rightarrow> bool \<times> 'v CacheManager" where
  "CacheManager_set w key value ttl m =
     (if store_ok w
      then (let c = (if ttl \<noteq> None \<and> ttl \<noteq> Some 0
                     then disk_set (time_now w) (cache m) key value ttl
                     else disk_set (time_now w) (cache m) key value None)
            in (True, m\<lparr>cache := c, sets := sets m + 1\<rparr>))
      else (False, m))"

definition CacheManager_delete ::
  "store_io \<Rightarrow> string \<Rightarrow> 'v CacheManager \<Rightarrow> bool \<times> 'v CacheManager" where
  "CacheManager_delete w key m =
     (if store_ok w
      then (if disk_live (time_now w) (cache m) key
            then (True, m\<lparr>cache := (cache m)(key := None)\<rparr>)
            else (False, m))
      else (False, m))"

definition CacheManager_clear_all :: "store_io \<Rightarrow> 'v CacheManager \<Rightarrow> bool \<times> 'v CacheManager" where
  "CacheManager_clear_all w m =
     (if store_ok w then (True, m\<lparr>cache := Map.empty\<rparr>) else (False, m))"

definition CacheManager_is_healthy :: "store_io \<Rightarrow> 'v CacheManager \<Rightarrow> bool \<times> 'v CacheManager" where
  "CacheManager_is_healthy w m = (store_ok w, m)"

text \<open>
  \<^verbatim>\<open>get_stats\<close>: the counters and the hit rate in percent (the volume and the number of
  entries, which the store reports, are left out). It has no \<^verbatim>\<open>try\<close>.
\<close>

record cache_stats =
  stat_hits :: nat
  stat_misses :: nat
  stat_sets :: nat
  stat_hit_rate :: rat

definition CacheManager_get_stats ::
  "store_io \<Rightarrow> 'v CacheManager \<Rightarrow> (exn + cache_stats) \<times> 'v CacheManager" where
  "CacheManager_get_stats w m =
     (let total = hits m + misses m;
          hit_rate = (if 0 < total then of_nat (hits m) / of_nat total * 100 else 0)
      in if store_ok w
         then (Inr \<lparr>stat_hits = hits m, stat_misses = misses m, stat_sets = sets m,
                    stat_hit_rate = hit_rate\<rparr>, m)
         else (Inl OSError, m))"

section \<open>video\_processor.py: local feature extraction\<close>

text \<open>
  A decoded frame, by what the code computes from it: the pixels of
  \<^verbatim>\<open>cv2.cvtColor(frame, cv2.COLOR_BGR2GRAY)\<close> (values 0 to 255, row after row) and the
  variance of the Laplacian of that image.
\<close>

record frame =
  gray :: "nat list"
  laplacian_var :: rat

record audio_profile =
  tempo :: rat
  beat_count :: nat
  avg_spectral_centroid :: rat
  zero_crossing_rate :: rat
  avg_energy :: rat
  audio_duration :: rat

datatype audio_features = AudioProfile audio_profile | AudioError string

text \<open>
  What \<^verbatim>\<open>cv2.VideoCapture(video_path)\<close> and the audio tools give for one file: whether the
  container opens, its properties, the frame that \<^verbatim>\<open>cap.set(CAP_PROP_POS_FRAMES, idx)\<close>
  followed by \<^verbatim>\<open>cap.read()\<close> decodes (\<open>None\<close>: \<^verbatim>\<open>ret\<close> is false), the frames that successive
  \<^verbatim>\<open>cap.read()\<close> calls on a fresh capture decode before \<^verbatim>\<open>ret\<close> is false, and the outcome
  of the body of \<^verbatim>\<open>_extract_audio_features\<close> (\<open>Inl\<close>: the message of the exception).
\<close>

record video =
  isOpened :: bool
  CAP_PROP_FPS :: rat
  CAP_PROP_FRAME_COUNT :: int
  CAP_PROP_FRAME_WIDTH :: int
  CAP_PROP_FRAME_HEIGHT :: int
  read_at :: "int \<Rightarrow> frame option"
  read_all :: "frame list"
  audio_analysis :: "string + audio_profile"

text \<open>
  The feature summary. The formatted strings \<^verbatim>\<open>aspect_ratio\<close> and \<^verbatim>\<open>resolution\<close>, which
  repeat the width and the height, are left out. \<open>frames\<close> and \<open>audio\<close> are keys that
  are present only when asked for.
\<close>

record video_metadata =
  fps :: rat
  frame_count :: int
  width :: int
  height :: int
  duration :: rat

record frame_sample =
  frame_index :: int
  timestamp :: rat
  brightness :: rat
  motion_blur :: rat

record scene_cut =
  scene_frame_index :: nat
  scene_timestamp :: rat
  intensity :: rat

record features =
  metadata :: video_metadata
  frames :: "frame_sample list option"
  scenes :: "scene_cut list"
  audio :: "audio_features option"

text \<open>
  \<^verbatim>\<open>cv2.cvtColor\<close> refuses an empty image, \<^verbatim>\<open>cv2.absdiff\<close> two images of different sizes;
  \<^verbatim>\<open>np.mean\<close> is only reached with an image that \<^verbatim>\<open>cvtColor\<close> accepted.
\<close>

definition cvtColor :: "frame \<Rightarrow> exn + nat list" where
  "cvtColor f = (if gray f = [] then Inl Cv2Error else Inr (gray f))"

definition absdiff :: "nat list \<Rightarrow> nat list \<Rightarrow> exn + nat list" where
  "absdiff a b =
     (if length a = length b
      then Inr (map (\<lambda>(x, y). if x \<le> y then y - x else x - y) (zip a b))
      else Inl Cv2Error)"

definition np_mean :: "nat list \<Rightarrow> rat" where
  "np_mean xs = of_nat (sum_list xs) / of_nat (length xs)"

text \<open>\<^verbatim>\<open>range(0, stop, step)\<close>.\<close>

definition py_range0 :: "int \<Rightarrow> int \<Rightarrow> exn + int list" where
  "py_range0 stop step =
     (if step = 0 then Inl (ValueError ''range() arg 3 must not be zero'')
      else if 0 < step
      then Inr (map (\<lambda>k. int k * step) [0..<nat ((stop + step - 1) div step)])
      else Inr (map (\<lambda>k. int k * step) [0..<nat ((- stop - step - 1) div (- step))]))"

definition estimate_motion_blur :: "frame \<Rightarrow> exn + rat" where
  "estimate_motion_blur f =
     (case cvtColor f of Inl e \<Rightarrow> Inl e | Inr g \<Rightarrow> Inr (laplacian_var f))"

text \<open>Lines 74 to 87 of \<^verbatim>\<open>_extract_features_sync\<close>: the metadata of an opened container.\<close>

definition extract_metadata :: "video \<Rightarrow> exn + video_metadata" where
  "extract_metadata v =
     (let fps0 = CAP_PROP_FPS v;
          frame_count0 = CAP_PROP_FRAME_COUNT v
      in case (if 0 < fps0 then truediv (of_int frame_count0) fps0 else Inr 0) of
           Inl e \<Rightarrow> Inl e
         | Inr duration0 \<Rightarrow>
             Inr \<lparr>fps = fps0,
                  frame_count = frame_count0,
                  width = CAP_PROP_FRAME_WIDTH v,
                  height = CAP_PROP_FRAME_HEIGHT v,
                  duration = duration0\<rparr>)"

text \<open>
  The body of the sampling loop for one index: nothing when the frame does not decode;
  otherwise the brightness and the blur score are computed, then the entry is built, and
  building it divides \<open>idx\<close> by the frame rate (\<^verbatim>\<open>idx / fps\<close>).
\<close>

definition sample_frame :: "video \<Rightarrow> int \<Rightarrow> exn + frame_sample option" where
  "sample_frame v idx =
     (case read_at v idx of
        None \<Rightarrow> Inr None
      | Some f \<Rightarrow>
          (case cvtColor f of
             Inl e \<Rightarrow> Inl e
           | Inr g \<Rightarrow>
               (case estimate_motion_blur f of
                  Inl e \<Rightarrow> Inl e
                | Inr blur \<Rightarrow>
                    (case truediv (of_int idx) (CAP_PROP_FPS v) of
                       Inl e \<Rightarrow> Inl e
                     | Inr ts \<Rightarrow>
                         Inr (Some \<lparr>frame_index = idx,
                                     timestamp = ts,
                                     brightness = np_mean g,
                                     motion_blur = blur\<rparr>)))))"

fun sample_loop :: "video \<Rightarrow> int list \<Rightarrow> frame_sample list \<Rightarrow> exn + frame_sample list" where
  "sample_loop v [] acc = Inr acc"
| "sample_loop v (idx # rest) acc =
     (case sample_frame v idx of
        Inl e \<Rightarrow> Inl e
      | Inr None \<Rightarrow> sample_loop v rest acc
      | Inr (Some smp) \<Rightarrow> sample_loop v rest (acc @ [smp]))"

text \<open>
  The loop of \<^verbatim>\<open>_detect_scenes\<close> over the frames still to read, with its three variables
  \<^verbatim>\<open>prev_frame\<close>, \<^verbatim>\<open>frame_idx\<close> and \<^verbatim>\<open>scenes\<close>. The threshold is 30.0.
\<close>

definition scene_threshold :: rat where
  "scene_threshold = 30"

fun scene_loop ::
  "rat \<Rightarrow> frame list \<Rightarrow> nat list option \<Rightarrow> nat \<Rightarrow> scene_cut list \<Rightarrow> exn + scene_cut list" where
  "scene_loop fps0 [] prev_frame frame_idx acc = Inr acc"
| "scene_loop fps0 (f # rest) prev_frame frame_idx acc =
     (case cvtColor f of
        Inl e \<Rightarrow> Inl e
      | Inr g \<Rightarrow>
          (case prev_frame of
             None \<Rightarrow> scene_loop fps0 rest (Some g) (frame_idx + 1) acc
           | Some p \<Rightarrow>
               (case absdiff p g of
                  Inl e \<Rightarrow> Inl e
                | Inr diff \<Rightarrow>
                    if scene_threshold < np_mean diff
                    then (case truediv (of_nat frame_idx) fps0 of
                            Inl e \<Rightarrow> Inl e
                          | Inr ts \<Rightarrow>
                              scene_loop fps0 rest (Some g) (frame_idx + 1)
                                (acc @ [\<lparr>scene_frame_index = frame_idx,
                                         scene_timestamp = ts,
                                         intensity = np_mean diff\<rparr>]))
                    else scene_loop fps0 rest (Some g) (frame_idx + 1) acc)))"

definition detect_scenes :: "video \<Rightarrow> rat \<Rightarrow> exn + scene_cut list" where
  "detect_scenes v fps0 =
     (if isOpened v then scene_loop fps0 (read_all v) None 0 [] else Inr [])"

definition extract_audio_features :: "video \<Rightarrow> audio_features" where
  "extract_audio_features v =
     (case audio_analysis v of Inl msg \<Rightarrow> AudioError msg | Inr p \<Rightarrow> AudioProfile p)"

text \<open>
  \<^verbatim>\<open>_extract_features_sync\<close>. The file is the parameter \<open>v\<close>; the message of the
  \<^verbatim>\<open>ValueError\<close> is given without the path. The \<^verbatim>\<open>except\<close> clause logs and raises again.
\<close>

definition extract_features_sync :: "video \<Rightarrow> bool \<Rightarrow> bool \<Rightarrow> int \<Rightarrow> exn + features" where
  "extract_features_sync v extract_audio sample_frames frame_interval =
     (if \<not> isOpened v then Inl (ValueError ''Cannot open video'')
      else
        case extract_metadata v of
          Inl e \<Rightarrow> Inl e
        | Inr md \<Rightarrow>
            (case (if sample_frames
                   then (case py_range0 (frame_count md) frame_interval of
                           Inl e \<Rightarrow> Inl e
                         | Inr frame_indices \<Rightarrow>
                             (case sample_loop v frame_indices [] of
                                Inl e \<Rightarrow> Inl e
                              | Inr fs \<Rightarrow> Inr (Some fs)))
                   else Inr None) of
               Inl e \<Rightarrow> Inl e
             | Inr fr \<Rightarrow>
                 (case detect_scenes v (fps md) of
                    Inl e \<Rightarrow> Inl e
                  | Inr sc \<Rightarrow>
                      Inr \<lparr>metadata = md,
                           frames = fr,
                           scenes = sc,
                           audio = (if extract_audio then Some (extract_audio_features v)
                                    else None)\<rparr>)))"

section \<open>ai\_router.py: the inference router\<close>

text \<open>
  The analysis a parser returns: the decoded JSON value (of the decoder's type \<open>'j\<close>), or
  the basic structure, a summary of five texts and an empty timeline.
\<close>

record summary =
  storytelling :: string
  editing :: string
  cinematography :: string
  musicIntegration :: string
  verdict :: string

datatype 'j analysis = Decoded 'j | Basic summary "'j list"

text \<open>
  \<^verbatim>\<open>re.search(r'\{.*\}', text, re.DOTALL)\<close>: the search starts at the first opening brace
  and the greedy \<^verbatim>\<open>.*\<close> runs to the last closing brace after it; there is a match when
  such a closing brace exists, and the match is the span from the one to the other.
\<close>

definition re_search_braces :: "string \<Rightarrow> string option" where
  "re_search_braces txt =
     (case dropWhile (\<lambda>c. c \<noteq> CHR ''{'') txt of
        [] \<Rightarrow> None
      | b # rest \<Rightarrow>
          if CHR ''}'' \<in> set rest
          then Some (b # rev (dropWhile (\<lambda>c. c \<noteq> CHR ''}'') (rev rest)))
          else None)"

text \<open>
  The two parsers. \<^verbatim>\<open>json.loads\<close> is the decoder of the standard library and is the
  parameter \<open>loads\<close>; what it raises is logged and raised again.
\<close>

definition parse_gemini_response :: "(string \<Rightarrow> exn + 'j) \<Rightarrow> string \<Rightarrow> exn + 'j analysis" where
  "parse_gemini_response loads txt =
     (case re_search_braces txt of
        Some json_match \<Rightarrow>
          (case loads json_match of Inl e \<Rightarrow> Inl e | Inr j \<Rightarrow> Inr (Decoded j))
      | None \<Rightarrow>
          Inr (Basic \<lparr>storytelling = take 200 txt,
                      editing = ''See full analysis'',
                      cinematography = ''See full analysis'',
                      musicIntegration = ''See full analysis'',
                      verdict = ''Analysis completed''\<rparr> []))"

definition parse_local_response :: "(string \<Rightarrow> exn + 'j) \<Rightarrow> string \<Rightarrow> exn + 'j analysis" where
  "parse_local_response loads txt =
     (case re_search_braces txt of
        Some json_match \<Rightarrow>
          (case loads json_match of Inl e \<Rightarrow> Inl e | Inr j \<Rightarrow> Inr (Decoded j))
      | None \<Rightarrow>
          Inr (Basic \<lparr>storytelling = ''Local analysis based on features'',
                      editing = ''Tempo-based rhythm assessment'',
                      cinematography = ''Technical quality assessment'',
                      musicIntegration = ''Beat synchronization analysis'',
                      verdict = (if txt \<noteq> [] then take 200 txt else ''Analysis completed'')\<rparr> []))"

text \<open>
  The prompts, by the values they embed in their fixed text (\<open>None\<close> is printed as
  \<^verbatim>\<open>N/A\<close>). The prompt of the local model has no video beside it.
\<close>

record analysis_prompt =
  ap_duration :: rat
  ap_fps :: rat
  ap_width :: int
  ap_height :: int
  ap_tempo :: "rat option"
  ap_scene_changes :: nat

record local_prompt =
  lp_duration :: rat
  lp_width :: int
  lp_height :: int
  lp_fps :: rat
  lp_tempo :: "rat option"
  lp_avg_energy :: "rat option"
  lp_frames_analyzed :: nat
  lp_scene_changes :: nat
  lp_avg_brightness :: "rat option"

definition audio_get :: "features \<Rightarrow> (audio_profile \<Rightarrow> rat) \<Rightarrow> rat option" where
  "audio_get ft field =
     (case audio ft of Some (AudioProfile p) \<Rightarrow> Some (field p) | _ \<Rightarrow> None)"

definition frames_get :: "features \<Rightarrow> frame_sample list" where
  "frames_get ft = (case frames ft of None \<Rightarrow> [] | Some fs \<Rightarrow> fs)"

definition create_analysis_prompt :: "features \<Rightarrow> analysis_prompt" where
  "create_analysis_prompt ft =
     \<lparr>ap_duration = duration (metadata ft),
      ap_fps = fps (metadata ft),
      ap_width = width (metadata ft),
      ap_height = height (metadata ft),
      ap_tempo = audio_get ft tempo,
      ap_scene_changes = length (scenes ft)\<rparr>"

definition create_local_analysis_prompt :: "features \<Rightarrow> local_prompt" where
  "create_local_analysis_prompt ft =
     \<lparr>lp_duration = duration (metadata ft),
      lp_width = width (metadata ft),
      lp_height = height (metadata ft),
      lp_fps = fps (metadata ft),
      lp_tempo = audio_get ft tempo,
      lp_avg_energy = audio_get ft avg_energy,
      lp_frames_analyzed = length (frames_get ft),
      lp_scene_changes = length (scenes ft),
      lp_avg_brightness =
        (if frames_get ft \<noteq> []
         then Some (sum_list (map brightness (frames_get ft)) / of_nat (length (frames_get ft)))
         else None)\<rparr>"

text \<open>
  The two providers, as one call sees them. Gemini: the outcome of \<^verbatim>\<open>upload_file\<close> (the
  state of the uploaded file), the outcomes of the successive \<^verbatim>\<open>get_file\<close> calls, and
  \<^verbatim>\<open>generate_content\<close> (the text and, when the response has \<^verbatim>\<open>usage_metadata\<close>, the token
  count). The local model: \<^verbatim>\<open>create_chat_completion\<close> (the text of the first choice and
  the token count). The decoder \<^verbatim>\<open>json.loads\<close>.
\<close>

datatype file_state = PROCESSING | ACTIVE | FAILED

record gemini_response =
  response_text :: string
  usage_metadata :: "int option"

record llama_response =
  message_content :: string
  total_tokens :: int

record 'j providers =
  upload_file :: "string \<Rightarrow> exn + file_state"
  get_file :: "(exn + file_state) list"
  generate_content :: "analysis_prompt \<Rightarrow> exn + gemini_response"
  create_chat_completion :: "local_prompt \<Rightarrow> exn + llama_response"
  json_loads :: "string \<Rightarrow> exn + 'j"

record AIRouter =
  gemini_available :: bool
  local_llm_available :: bool

record 'j analysis_result =
  analysis :: "'j analysis"
  provider :: string
  model :: string
  tokens :: int

text \<open>
  The polling loop of \<^verbatim>\<open>_analyze_with_gemini\<close>: while the state is \<^verbatim>\<open>PROCESSING\<close>, sleep
  and ask again. It has no bound: when the provider's answers are used up and the state
  is still \<^verbatim>\<open>PROCESSING\<close> the loop does not return, which is the value \<open>None\<close>.
\<close>

fun wait_processing :: "file_state \<Rightarrow> (exn + file_state) list \<Rightarrow> (exn + file_state) option" where
  "wait_processing st [] = (if st = PROCESSING then None else Some (Inr st))"
| "wait_processing st (g # gs) =
     (if st = PROCESSING
      then (case g of Inl e \<Rightarrow> Some (Inl e) | Inr st' \<Rightarrow> wait_processing st' gs)
      else Some (Inr st))"

definition analyze_with_local_llm :: "'j providers \<Rightarrow> features \<Rightarrow> exn + 'j analysis_result" where
  "analyze_with_local_llm w ft =
     (case create_chat_completion w (create_local_analysis_prompt ft) of
        Inl e \<Rightarrow> Inl e
      | Inr response \<Rightarrow>
          (case parse_local_response (json_loads w) (message_content response) of
             Inl e \<Rightarrow> Inl e
           | Inr a \<Rightarrow>
               Inr \<lparr>analysis = a,
                    provider = ''local_llm'',
                    model = ''llama-2-7b'',
                    tokens = total_tokens response\<rparr>))"

text \<open>The body of the \<^verbatim>\<open>try\<close> of \<^verbatim>\<open>_analyze_with_gemini\<close>.\<close>

definition gemini_call ::
  "'j providers \<Rightarrow> string \<Rightarrow> features \<Rightarrow> (exn + 'j analysis_result) option" where
  "gemini_call w video_path ft =
     (case upload_file w video_path of
        Inl e \<Rightarrow> Some (Inl e)
      | Inr st \<Rightarrow>
          (case wait_processing st (get_file w) of
             None \<Rightarrow> None
           | Some (Inl e) \<Rightarrow> Some (Inl e)
           | Some (Inr st') \<Rightarrow>
               if st' = FAILED then Some (Inl (Exception ''Gemini video processing failed''))
               else
                 (case generate_content w (create_analysis_prompt ft) of
                    Inl e \<Rightarrow> Some (Inl e)
                  | Inr response \<Rightarrow>
                      (case parse_gemini_response (json_loads w) (response_text response) of
                         Inl e \<Rightarrow> Some (Inl e)
                       | Inr a \<Rightarrow>
                           Some (Inr \<lparr>analysis = a,
                                      provider = ''gemini'',
                                      model = ''gemini-1.5-flash'',
                                      tokens = (case usage_metadata response of
                                                  Some n \<Rightarrow> n | None \<Rightarrow> 0)\<rparr>)))))"

text \<open>
  \<^verbatim>\<open>_analyze_with_gemini\<close>: the \<^verbatim>\<open>except\<close> clause falls back to the local model when it
  is available and raises the exception again otherwise.
\<close>

definition analyze_with_gemini ::
  "AIRouter \<Rightarrow> 'j providers \<Rightarrow> string \<Rightarrow> features \<Rightarrow> (exn + 'j analysis_result) option" where
  "analyze_with_gemini r w video_path ft =
     (case gemini_call w video_path ft of
        None \<Rightarrow> None
      | Some (Inr res) \<Rightarrow> Some (Inr res)
      | Some (Inl e) \<Rightarrow>
          if local_llm_available r then Some (analyze_with_local_llm w ft)
          else Some (Inl e))"

definition analyze_video ::
  "AIRouter \<Rightarrow> 'j providers \<Rightarrow> string \<Rightarrow> features \<Rightarrow> bool \<Rightarrow> (exn + 'j analysis_result) option" where
  "analyze_video r w video_path ft force_local =
     (if force_local \<or> \<not> gemini_available r
      then (if local_llm_available r then Some (analyze_with_local_llm w ft)
            else Some (Inl (Exception ''No AI provider available'')))
      else analyze_with_gemini r w video_path ft)"

section \<open>Notions used to state the properties\<close>

text \<open>
  An operation with cost \<open>c\<close> has been recorded under the bucket \<open>key\<close>: the total and
  the bucket have grown by \<open>c\<close>, and the file holds the attributes of the tracker as they
  are now.
\<close>

definition recorded_in :: "string \<Rightarrow> rat \<Rightarrow> io \<Rightarrow> CostTracker \<Rightarrow> CostTracker \<Rightarrow> bool" where
  "recorded_in key c w s s' \<longleftrightarrow>
     total_cost s' = total_cost s + c \<and>
     breakdown s' = (breakdown s)(key \<mapsto> dict_get (breakdown s) key 0 + c) \<and>
     persisted s' = Some \<lparr>file_total_cost = total_cost s',
                             file_breakdown = breakdown s',
                             file_api_calls = api_calls s',
                             file_cache_hits = cache_hits s',
                             file_last_updated = now_iso w\<rparr>"

subsection \<open>Concrete inputs\<close>

definition fresh_tracker :: CostTracker where
  "fresh_tracker =
     \<lparr>total_cost = 0, breakdown = Map.empty, api_calls = 0, cache_hits = 0, persisted = None\<rparr>"

definition io_ok :: io where
  "io_ok = \<lparr>now_iso = ''2025-01-01T00:00:00'', write_ok = True\<rparr>"

definition over_budget :: CostTracker where
  "over_budget = fresh_tracker\<lparr>total_cost := 6\<rparr>"


definition first_calls :: "(io \<times> ledger_op) list" where
  "first_calls = [(io_ok, Analysis ''gemini'' ''gemini-1.5-flash'' 2000)]"

definition later_calls :: "(io \<times> ledger_op) list" where
  "later_calls =
     [(io_ok, CacheHit ''analysis''),
      (io_ok, ImageGeneration ''gemini_imagen'' ''imagen-3.0-generate-001''),
      (io_ok, Chat ''local_llm'' 300)]"

text \<open>The three counters of the cache manager.\<close>

definition counters :: "'v CacheManager \<Rightarrow> nat \<times> nat \<times> nat" where
  "counters m = (hits m, misses m, sets m)"

definition store_up :: store_io where
  "store_up = \<lparr>time_now = 100, store_ok = True\<rparr>"

definition store_up_later :: store_io where
  "store_up_later = \<lparr>time_now = 1000000000, store_ok = True\<rparr>"

definition store_down :: store_io where
  "store_down = \<lparr>time_now = 100, store_ok = False\<rparr>"

definition one_entry :: "string CacheManager" where
  "one_entry =
     \<lparr>cache = [''analysis:ab'' \<mapsto> (Some ''critique'', None)], hits = 3, misses = 1, sets = 1\<rparr>"

text \<open>
  Scene detection, in the words of its description: the mean absolute difference of two
  grayscale images of the same size; the pairs of adjacent frames of a sequence, each
  with the index of its second frame; the pairs whose difference exceeds 30; the cut such
  a pair gives.
\<close>

definition mean_absdiff :: "nat list \<Rightarrow> nat list \<Rightarrow> rat" where
  "mean_absdiff a b = np_mean (map (\<lambda>(x, y). if x \<le> y then y - x else x - y) (zip a b))"

fun adjacent :: "nat \<Rightarrow> frame \<Rightarrow> frame list \<Rightarrow> (nat \<times> frame \<times> frame) list" where
  "adjacent k p [] = []"
| "adjacent k p (f # fs) = (k, p, f) # adjacent (k + 1) f fs"

definition exceeds :: "nat \<times> frame \<times> frame \<Rightarrow> bool" where
  "exceeds t = (case t of (k, p, f) \<Rightarrow> 30 < mean_absdiff (gray p) (gray f))"

definition cut_of :: "rat \<Rightarrow> nat \<times> frame \<times> frame \<Rightarrow> scene_cut" where
  "cut_of fps0 t =
     (case t of (k, p, f) \<Rightarrow>
        \<lparr>scene_frame_index = k,
         scene_timestamp = of_nat k / fps0,
         intensity = mean_absdiff (gray p) (gray f)\<rparr>)"

text \<open>
  All frames of a list have \<open>n\<close> pixels; a sequence has a cut; the cuts expected of a
  sequence; the indices that frame sampling visits; every frame the file gives has the
  same, positive number of pixels.
\<close>

definition same_size :: "nat \<Rightarrow> frame list \<Rightarrow> bool" where
  "same_size n fs = list_all (\<lambda>f. length (gray f) = n) fs"

definition has_cut :: "frame list \<Rightarrow> bool" where
  "has_cut fs = (case fs of [] \<Rightarrow> False | f0 # rest \<Rightarrow> list_ex exceeds (adjacent 1 f0 rest))"

definition expected_cuts :: "rat \<Rightarrow> frame list \<Rightarrow> scene_cut list" where
  "expected_cuts fps0 fs =
     (case fs of [] \<Rightarrow> [] | f0 # rest \<Rightarrow> map (cut_of fps0) (filter exceeds (adjacent 1 f0 rest)))"

definition sampled_indices :: "video \<Rightarrow> int \<Rightarrow> int list" where
  "sampled_indices v frame_interval =
     (case py_range0 (CAP_PROP_FRAME_COUNT v) frame_interval of Inl e \<Rightarrow> [] | Inr xs \<Rightarrow> xs)"

definition frames_wellformed :: "video \<Rightarrow> nat \<Rightarrow> bool" where
  "frames_wellformed v n \<longleftrightarrow>
     0 < n \<and> same_size n (read_all v) \<and> (\<forall>idx f. read_at v idx = Some f \<longrightarrow> length (gray f) = n)"

text \<open>
  Two frames of four pixels whose mean absolute difference is 50, a file with the one
  followed by the other, and a file with the same frame twice; both report a frame rate
  of 0.
\<close>

definition dark_frame :: frame where
  "dark_frame = \<lparr>gray = [0, 0, 0, 0], laplacian_var = 0\<rparr>"

definition bright_frame :: frame where
  "bright_frame = \<lparr>gray = [50, 50, 50, 50], laplacian_var = 0\<rparr>"

definition cut_video :: video where
  "cut_video =
     \<lparr>isOpened = True, CAP_PROP_FPS = 0, CAP_PROP_FRAME_COUNT = 2,
      CAP_PROP_FRAME_WIDTH = 2, CAP_PROP_FRAME_HEIGHT = 2,
      read_at = (\<lambda>idx. if idx = 0 then Some dark_frame
                        else if idx = 1 then Some bright_frame else None),
      read_all = [dark_frame, bright_frame],
      audio_analysis = Inl ''no audio stream''\<rparr>"

definition uniform_video :: video where
  "uniform_video =
     \<lparr>isOpened = True, CAP_PROP_FPS = 0, CAP_PROP_FRAME_COUNT = 2,
      CAP_PROP_FRAME_WIDTH = 2, CAP_PROP_FRAME_HEIGHT = 2,
      read_at = (\<lambda>idx. if idx = 0 \<or> idx = 1 then Some dark_frame else None),
      read_all = [dark_frame, dark_frame],
      audio_analysis = Inl ''no audio stream''\<rparr>"

definition uniform_features :: features where
  "uniform_features =
     \<lparr>metadata = \<lparr>fps = 0, frame_count = 2, width = 2, height = 2, duration = 0\<rparr>,
      frames = None,
      scenes = [],
      audio = Some (AudioError ''no audio stream'')\<rparr>"

definition clip_25fps :: video where
  "clip_25fps = uniform_video\<lparr>CAP_PROP_FPS := 25, CAP_PROP_FRAME_COUNT := 50\<rparr>"


text \<open>
  A decoder for the examples, which accepts at least the spans \<^verbatim>\<open>json.loads\<close> accepts: it
  refuses a span in which the opening brace is followed, after blanks, by neither a double
  quote nor the closing brace (\<^verbatim>\<open>json.loads\<close> refuses such a span: a property name in
  double quotes is expected), and takes every other span as it is.
\<close>

definition json_blank :: "char \<Rightarrow> bool" where
  "json_blank c \<longleftrightarrow> c = CHR '' '' \<or> c = CHR 0x09 \<or> c = CHR 0x0A \<or> c = CHR 0x0D"

definition object_opens :: "string \<Rightarrow> bool" where
  "object_opens s =
     (case s of
        [] \<Rightarrow> False
      | c # r \<Rightarrow>
          c = CHR ''{'' \<and>
          (case dropWhile json_blank r of
             [] \<Rightarrow> False
           | d # _ \<Rightarrow> d = CHR 0x22 \<or> d = CHR ''}''))"

definition lenient_loads :: "string \<Rightarrow> exn + string" where
  "lenient_loads s = (if object_opens s then Inr s else Inl JSONDecodeError)"

text \<open>
  Routers and providers: both providers answer; the upload to Gemini raises; the upload
  raises and the local model raises as well.
\<close>

definition both_available :: AIRouter where
  "both_available = \<lparr>gemini_available = True, local_llm_available = True\<rparr>"

definition cloud_only :: AIRouter where
  "cloud_only = \<lparr>gemini_available = True, local_llm_available = False\<rparr>"

definition providers_up :: "string providers" where
  "providers_up =
     \<lparr>upload_file = (\<lambda>path. Inr PROCESSING),
      get_file = [Inr PROCESSING, Inr ACTIVE],
      generate_content =
        (\<lambda>prompt. Inr \<lparr>response_text = ''Critique: {}'', usage_metadata = Some 1200\<rparr>),
      create_chat_completion =
        (\<lambda>prompt. Inr \<lparr>message_content = ''The pacing is uneven.'', total_tokens = 300\<rparr>),
      json_loads = lenient_loads\<rparr>"

definition providers_cloud_down :: "string providers" where
  "providers_cloud_down =
     providers_up\<lparr>upload_file := (\<lambda>path. Inl (Exception ''upload failed''))\<rparr>"

definition providers_both_down :: "string providers" where
  "providers_both_down =
     providers_cloud_down
       \<lparr>create_chat_completion := (\<lambda>prompt. Inl (Exception ''context window exceeded''))\<rparr>"

text \<open>The results the examples give.\<close>

definition local_answer :: "string analysis_result" where
  "local_answer =
     \<lparr>analysis = Basic \<lparr>storytelling = ''Local analysis based on features'',
                         editing = ''Tempo-based rhythm assessment'',
                         cinematography = ''Technical quality assessment'',
                         musicIntegration = ''Beat synchronization analysis'',
                         verdict = ''The pacing is uneven.''\<rparr> [],
      provider = ''local_llm'',
      model = ''llama-2-7b'',
      tokens = 300\<rparr>"

definition cloud_answer :: "string analysis_result" where
  "cloud_answer =
     \<lparr>analysis = Decoded ''{}'',
      provider = ''gemini'',
      model = ''gemini-1.5-flash'',
      tokens = 1200\<rparr>"

section \<open>Properties of the cost ledger\<close>

lemma price_nonneg: "0 \<le> d \<Longrightarrow> 0 \<le> dict_get COST_PER_1K_TOKENS m d"
  by (simp add: dict_get_def COST_PER_1K_TOKENS_def)

lemma total_cost_save: "total_cost (snd (save w s)) = total_cost s"
  by (simp add: save_def)

lemma total_cost_add_cost: "total_cost (snd (add_cost w key cost s)) = total_cost s + cost"
  by (simp add: add_cost_def save_def Let_def)

lemma add_cost_ok:
  "fst (add_cost w key c0 s) = Inr c \<Longrightarrow>
   c = c0 \<and> recorded_in key c w s (snd (add_cost w key c0 s))"
  by (auto simp: add_cost_def save_def Let_def recorded_in_def split: if_splits)

lemma add_cost_completes: "write_ok w \<Longrightarrow> fst (add_cost w key c0 s) = Inr c0"
  by (simp add: add_cost_def save_def Let_def)

lemma record_op_mono:
  assumes "0 \<le> tokens_of (snd c)"
  shows "total_cost s \<le> total_cost (record_op c s)"
proof (cases c)
  case (Pair w x)
  show ?thesis
  proof (cases x)
    case (Analysis p mdl n)
    with Pair assms show ?thesis
      by (simp add: record_analysis_def total_cost_add_cost Let_def price_nonneg)
  next
    case (Chat p n)
    with Pair assms show ?thesis
      by (simp add: record_chat_def total_cost_add_cost Let_def price_nonneg)
  next
    case (ImageGeneration p mdl)
    with Pair show ?thesis
      by (simp add: record_image_generation_def total_cost_add_cost Let_def price_nonneg)
  next
    case (CacheHit operation)
    with Pair show ?thesis
      by (simp add: record_cache_hit_def total_cost_save)
  qed
qed

lemma record_all_mono:
  "\<forall>c \<in> set cs. 0 \<le> tokens_of (snd c) \<Longrightarrow> total_cost s \<le> total_cost (record_all cs s)"
proof (induction cs arbitrary: s)
  case Nil
  then show ?case by simp
next
  case (Cons c cs)
  have "total_cost s \<le> total_cost (record_op c s)"
    using Cons.prems by (simp add: record_op_mono)
  also have "\<dots> \<le> total_cost (record_all cs (record_op c s))"
    using Cons.prems by (intro Cons.IH) simp
  finally show ?case by simp
qed

lemma record_all_append: "record_all (xs @ ys) s = record_all ys (record_all xs s)"
  by (induction xs arbitrary: s) simp_all

lemma reset_zeroes:
  "total_cost (snd (reset w s)) = 0 \<and> breakdown (snd (reset w s)) = Map.empty \<and>
   api_calls (snd (reset w s)) = 0 \<and> cache_hits (snd (reset w s)) = 0"
  by (simp add: reset_def save_def)

text \<open>
  C2. In a sequence of recording calls whose token counts are not negative, with no reset
  among them, the total cost after the first calls (\<open>xs\<close>) is at most the total cost after
  any further calls (\<open>xs @ ys\<close>), whether or not the calls could write the file; and
  right after \<^verbatim>\<open>reset\<close> the total cost is 0, the breakdown is empty and both counters
  are 0.
\<close>

theorem total_cost_monotone:
  "\<forall>c \<in> set (xs @ ys). 0 \<le> tokens_of (snd c) \<Longrightarrow>
   total_cost (record_all xs s) \<le> total_cost (record_all (xs @ ys) s) \<and>
   total_cost (snd (reset w s)) = 0 \<and>
   breakdown (snd (reset w s)) = Map.empty \<and>
   api_calls (snd (reset w s)) = 0 \<and>
   cache_hits (snd (reset w s)) = 0"
proof -
  assume "\<forall>c \<in> set (xs @ ys). 0 \<le> tokens_of (snd c)"
  then have "\<forall>c \<in> set ys. 0 \<le> tokens_of (snd c)" by simp
  then have "total_cost (record_all xs s) \<le> total_cost (record_all ys (record_all xs s))"
    by (rule record_all_mono)
  then show ?thesis
    by (simp add: record_all_append reset_zeroes)
qed

theorem total_cost_monotone_witness:
  "list_all (\<lambda>c. 0 \<le> tokens_of (snd c)) (first_calls @ later_calls) \<and>
   total_cost (record_all first_calls fresh_tracker)
     \<le> total_cost (record_all (first_calls @ later_calls) fresh_tracker) \<and>
   total_cost (snd (reset io_ok over_budget)) = 0 \<and>
   breakdown (snd (reset io_ok over_budget)) = Map.empty \<and>
   api_calls (snd (reset io_ok over_budget)) = 0 \<and>
   cache_hits (snd (reset io_ok over_budget)) = 0"
proof -
  have h: "\<forall>c \<in> set (first_calls @ later_calls). 0 \<le> tokens_of (snd c)"
    by (simp add: first_calls_def later_calls_def)
  have a: "total_cost (record_all first_calls fresh_tracker)
             \<le> total_cost (record_all (first_calls @ later_calls) fresh_tracker)"
    using total_cost_monotone [OF h, of fresh_tracker io_ok] by simp
  have b: "total_cost (snd (reset io_ok over_budget)) = 0 \<and>
           breakdown (snd (reset io_ok over_budget)) = Map.empty \<and>
           api_calls (snd (reset io_ok over_budget)) = 0 \<and>
           cache_hits (snd (reset io_ok over_budget)) = 0"
    using total_cost_monotone [OF h, of over_budget io_ok] by simp
  from h a b show ?thesis by (simp add: list_all_iff)
qed

text \<open>
  C4, as amended. A recording call that returns the cost \<open>c\<close> has added \<open>c\<close> to the
  total and to one bucket of the breakdown, and the file then holds the attributes of the
  tracker. The bucket is \<^verbatim>\<open>analysis_<provider>\<close> for an analysis and \<^verbatim>\<open>chat_<provider>\<close> for
  a chat; for an image generation it is \<^verbatim>\<open>image_generation\<close>, whatever the provider. The
  call returns whenever the file can be written.
\<close>

theorem record_persists:
  "(fst (record_analysis w p mdl n s) = Inr c \<longrightarrow>
      recorded_in (''analysis_'' @ p) c w s (snd (record_analysis w p mdl n s))) \<and>
   (fst (record_chat w p n s) = Inr c \<longrightarrow>
      recorded_in (''chat_'' @ p) c w s (snd (record_chat w p n s))) \<and>
   (fst (record_image_generation w p mdl s) = Inr c \<longrightarrow>
      recorded_in ''image_generation'' c w s (snd (record_image_generation w p mdl s))) \<and>
   (write_ok w \<longrightarrow>
      (\<exists>c1. fst (record_analysis w p mdl n s) = Inr c1) \<and>
      (\<exists>c2. fst (record_chat w p n s) = Inr c2) \<and>
      (\<exists>c3. fst (record_image_generation w p mdl s) = Inr c3))"
  by (auto simp: record_analysis_def record_chat_def record_image_generation_def Let_def
      add_cost_completes dest: add_cost_ok)

theorem record_persists_witness:
  "write_ok io_ok \<and>
   fst (record_analysis io_ok ''gemini'' ''gemini-1.5-flash'' 2000 fresh_tracker) = Inr (3 / 80000) \<and>
   recorded_in ''analysis_gemini'' (3 / 80000) io_ok fresh_tracker
     (snd (record_analysis io_ok ''gemini'' ''gemini-1.5-flash'' 2000 fresh_tracker))"
proof -
  have w: "write_ok io_ok" by (simp add: io_ok_def)
  have h: "fst (record_analysis io_ok ''gemini'' ''gemini-1.5-flash'' 2000 fresh_tracker)
             = Inr (3 / 80000)"
    by (simp add: record_analysis_def add_cost_def save_def Let_def io_ok_def dict_get_def
        COST_PER_1K_TOKENS_def)
  show ?thesis
    using w h
      record_persists [of io_ok "''gemini''" "''gemini-1.5-flash''" 2000 fresh_tracker "3 / 80000"]
    by simp
qed

text \<open>
  C4 as stated fails for image generation: the call made for the provider
  \<^verbatim>\<open>gemini_imagen\<close> returns its cost, and the breakdown has no bucket
  \<^verbatim>\<open>image_generation_gemini_imagen\<close>; the cost is in the bucket \<^verbatim>\<open>image_generation\<close>.
\<close>

theorem image_generation_bucket_counterexample:
  "fst (record_image_generation io_ok ''gemini_imagen'' ''imagen-3.0-generate-001'' fresh_tracker)
     = Inr (1 / 50) \<and>
   breakdown (snd (record_image_generation io_ok ''gemini_imagen'' ''imagen-3.0-generate-001''
                     fresh_tracker)) ''image_generation_gemini_imagen'' = None \<and>
   breakdown (snd (record_image_generation io_ok ''gemini_imagen'' ''imagen-3.0-generate-001''
                     fresh_tracker)) ''image_generation'' = Some (1 / 50)"
  by (simp add: record_image_generation_def add_cost_def save_def Let_def io_ok_def dict_get_def
      COST_PER_1K_TOKENS_def fresh_tracker_def)






section \<open>Properties of the cache\<close>

text \<open>
  C3, as amended. A \<^verbatim>\<open>get\<close> that the store answers returns what the store holds for the
  key and increments exactly one counter: the hit counter when it returns a value, the
  miss counter when it returns \<^verbatim>\<open>None\<close>. A \<^verbatim>\<open>set\<close> that the store accepts returns
  \<^verbatim>\<open>True\<close> and increments the set counter. When the store raises, \<^verbatim>\<open>get\<close> returns
  \<^verbatim>\<open>None\<close>, \<^verbatim>\<open>set\<close> returns \<^verbatim>\<open>False\<close>, and the manager is unchanged: no counter moves.
  \<^verbatim>\<open>delete\<close>, \<^verbatim>\<open>clear_all\<close>, \<^verbatim>\<open>is_healthy\<close> and \<^verbatim>\<open>get_stats\<close> leave the counters as they
  are.
\<close>

theorem cache_counters:
  "(store_ok w \<longrightarrow>
      fst (CacheManager_get w k m) = disk_get (time_now w) (cache m) k \<and>
      counters (snd (CacheManager_get w k m)) =
        (if fst (CacheManager_get w k m) \<noteq> None then (hits m + 1, misses m, sets m)
         else (hits m, misses m + 1, sets m)) \<and>
      fst (CacheManager_set w k v ttl m) \<and>
      counters (snd (CacheManager_set w k v ttl m)) = (hits m, misses m, sets m + 1)) \<and>
   (\<not> store_ok w \<longrightarrow>
      CacheManager_get w k m = (None, m) \<and> CacheManager_set w k v ttl m = (False, m)) \<and>
   counters (snd (CacheManager_delete w k m)) = counters m \<and>
   counters (snd (CacheManager_clear_all w m)) = counters m \<and>
   counters (snd (CacheManager_is_healthy w m)) = counters m \<and>
   counters (snd (CacheManager_get_stats w m)) = counters m"
  by (simp add: CacheManager_get_def CacheManager_set_def CacheManager_delete_def
      CacheManager_clear_all_def CacheManager_is_healthy_def CacheManager_get_stats_def
      counters_def Let_def)

theorem cache_counters_witness:
  "store_ok store_up \<and> \<not> store_ok store_down \<and>
   fst (CacheManager_get store_up ''analysis:ab'' one_entry) = Some ''critique'' \<and>
   counters (snd (CacheManager_get store_up ''analysis:ab'' one_entry)) = (4, 1, 1) \<and>
   fst (CacheManager_get store_up ''analysis:cd'' one_entry) = None \<and>
   counters (snd (CacheManager_get store_up ''analysis:cd'' one_entry)) = (3, 2, 1) \<and>
   counters (snd (CacheManager_set store_up ''analysis:cd'' (Some ''text'') (Some 604800) one_entry))
     = (3, 1, 2) \<and>
   CacheManager_get store_down ''analysis:ab'' one_entry = (None, one_entry) \<and>
   CacheManager_set store_down ''analysis:cd'' (Some ''text'') (Some 604800) one_entry
     = (False, one_entry)"
proof -
  have u: "store_ok store_up" and d: "\<not> store_ok store_down"
    by (simp_all add: store_up_def store_down_def)
  have g1: "disk_get (time_now store_up) (cache one_entry) ''analysis:ab'' = Some ''critique''"
    by (simp add: disk_get_def one_entry_def)
  have g2: "disk_get (time_now store_up) (cache one_entry) ''analysis:cd'' = None"
    by (simp add: disk_get_def one_entry_def)
  have c: "hits one_entry = 3 \<and> misses one_entry = 1 \<and> sets one_entry = 1"
    by (simp add: one_entry_def)
  show ?thesis
    using u d g1 g2 c
      cache_counters [of store_up "''analysis:ab''" one_entry "Some ''text''" "Some 604800"]
      cache_counters [of store_up "''analysis:cd''" one_entry "Some ''text''" "Some 604800"]
      cache_counters [of store_down "''analysis:ab''" one_entry "Some ''text''" "Some 604800"]
      cache_counters [of store_down "''analysis:cd''" one_entry "Some ''text''" "Some 604800"]
    by simp
qed

text \<open>
  C3 as stated fails when the store raises: the \<^verbatim>\<open>get\<close> returns \<^verbatim>\<open>None\<close> and neither the
  hit counter nor the miss counter has moved; the \<^verbatim>\<open>set\<close> has not moved the set counter.
\<close>

theorem cache_store_failure_counterexample:
  "fst (CacheManager_get store_down ''analysis:ab'' one_entry) = None \<and>
   hits (snd (CacheManager_get store_down ''analysis:ab'' one_entry)) = hits one_entry \<and>
   misses (snd (CacheManager_get store_down ''analysis:ab'' one_entry)) = misses one_entry \<and>
   sets (snd (CacheManager_set store_down ''analysis:ab'' (Some ''text'') None one_entry))
     = sets one_entry"
  by (simp add: CacheManager_get_def CacheManager_set_def store_down_def)

text \<open>
  C10. \<^verbatim>\<open>set\<close> with \<^verbatim>\<open>ttl = 0\<close> does what \<^verbatim>\<open>set\<close> with no TTL does, whatever the store's
  answer; when the store accepts the write the entry has no expiry time, and a following
  \<^verbatim>\<open>get\<close> that the store answers returns the stored value at any time.
\<close>

theorem ttl_zero_never_expires:
  "CacheManager_set w k v (Some 0) m = CacheManager_set w k v None m \<and>
   (store_ok w \<longrightarrow> cache (snd (CacheManager_set w k v (Some 0) m)) k = Some (v, None)) \<and>
   (store_ok w \<and> store_ok w' \<longrightarrow>
      fst (CacheManager_get w' k (snd (CacheManager_set w k v (Some 0) m))) = v)"
  by (simp add: CacheManager_set_def CacheManager_get_def disk_set_def disk_get_def Let_def)

theorem ttl_zero_never_expires_witness:
  "store_ok store_up \<and> store_ok store_up_later \<and>
   cache (snd (CacheManager_set store_up ''analysis:cd'' (Some ''text'') (Some 0) one_entry))
     ''analysis:cd'' = Some (Some ''text'', None) \<and>
   fst (CacheManager_get store_up_later ''analysis:cd''
          (snd (CacheManager_set store_up ''analysis:cd'' (Some ''text'') (Some 0) one_entry)))
     = Some ''text''"
proof -
  have u: "store_ok store_up" and l: "store_ok store_up_later"
    by (simp_all add: store_up_def store_up_later_def)
  have "(store_ok store_up \<longrightarrow>
           cache (snd (CacheManager_set store_up ''analysis:cd'' (Some ''text'') (Some 0) one_entry))
             ''analysis:cd'' = Some (Some ''text'', None)) \<and>
        (store_ok store_up \<and> store_ok store_up_later \<longrightarrow>
           fst (CacheManager_get store_up_later ''analysis:cd''
                  (snd (CacheManager_set store_up ''analysis:cd'' (Some ''text'') (Some 0) one_entry)))
             = Some ''text'')"
    using ttl_zero_never_expires
      [of store_up "''analysis:cd''" "Some ''text''" one_entry store_up_later]
    by blast
  with u l show ?thesis by blast
qed

text \<open>For contrast, an entry set with a positive TTL is absent once the TTL has elapsed.\<close>

lemma ttl_positive_expires:
  "store_ok w \<Longrightarrow> store_ok w' \<Longrightarrow> 0 < ttl \<Longrightarrow>
   fst (CacheManager_get w' k (snd (CacheManager_set w k v (Some ttl) m)))
     = (if time_now w' < time_now w + of_int ttl then v else None)"
  by (simp add: CacheManager_set_def CacheManager_get_def disk_set_def disk_get_def Let_def)

section \<open>Properties of feature extraction\<close>

lemma scene_loop_step:
  assumes "gray f \<noteq> []" "length (gray p) = length (gray f)"
  shows "scene_loop fps0 (f # fs) (Some (gray p)) k acc =
           (if exceeds (k, p, f)
            then (if fps0 = 0 then Inl ZeroDivisionError
                  else scene_loop fps0 fs (Some (gray f)) (k + 1) (acc @ [cut_of fps0 (k, p, f)]))
            else scene_loop fps0 fs (Some (gray f)) (k + 1) acc)"
  using assms
  by (simp add: cvtColor_def absdiff_def exceeds_def cut_of_def mean_absdiff_def
      scene_threshold_def truediv_def)

lemma scene_loop_adjacent:
  assumes "same_size n (p # fs)" "0 < n"
  shows "scene_loop fps0 fs (Some (gray p)) k acc =
           (if fps0 = 0 \<and> list_ex exceeds (adjacent k p fs) then Inl ZeroDivisionError
            else Inr (acc @ map (cut_of fps0) (filter exceeds (adjacent k p fs))))"
  using assms
proof (induction fs arbitrary: p k acc)
  case Nil
  then show ?case by simp
next
  case (Cons f fs)
  have g: "gray f \<noteq> []" and l: "length (gray p) = length (gray f)"
    using Cons.prems by (auto simp: same_size_def)
  have ss: "same_size n (f # fs)"
    using Cons.prems by (simp add: same_size_def)
  note IH = Cons.IH [OF ss \<open>0 < n\<close>]
  show ?case
  proof (cases "fps0 = 0")
    case True
    have "scene_loop 0 fs (Some (gray f)) (Suc k) acc =
            (if list_ex exceeds (adjacent (Suc k) f fs) then Inl ZeroDivisionError
             else Inr (acc @ map (cut_of 0) (filter exceeds (adjacent (Suc k) f fs))))"
      using IH [of "Suc k" acc] True by simp
    with True show ?thesis
      by (simp add: scene_loop_step [OF g l] del: scene_loop.simps)
  next
    case False
    then show ?thesis
      by (simp add: scene_loop_step [OF g l] IH del: scene_loop.simps)
  qed
qed

lemma detect_scenes_cuts:
  assumes "isOpened v" "same_size n (read_all v)" "0 < n"
  shows "detect_scenes v fps0 =
           (if fps0 = 0 \<and> has_cut (read_all v) then Inl ZeroDivisionError
            else Inr (expected_cuts fps0 (read_all v)))"
proof (cases "read_all v")
  case Nil
  then show ?thesis
    using assms by (simp add: detect_scenes_def has_cut_def expected_cuts_def)
next
  case (Cons f0 fs)
  have ss: "same_size n (f0 # fs)" using assms Cons by simp
  then have "gray f0 \<noteq> []" using assms by (auto simp: same_size_def)
  then show ?thesis
    using assms Cons scene_loop_adjacent [OF ss assms(3), of fps0 1 "[]"]
    by (simp add: detect_scenes_def cvtColor_def has_cut_def expected_cuts_def)
qed

lemma sample_loop_fps_zero:
  assumes "CAP_PROP_FPS v = 0" "\<forall>idx f. read_at v idx = Some f \<longrightarrow> gray f \<noteq> []"
  shows "sample_loop v idxs acc =
           (if list_ex (\<lambda>idx. read_at v idx \<noteq> None) idxs then Inl ZeroDivisionError else Inr acc)"
proof (induction idxs arbitrary: acc)
  case Nil
  then show ?case by simp
next
  case (Cons idx rest)
  show ?case
  proof (cases "read_at v idx")
    case None
    then show ?thesis by (simp add: sample_frame_def Cons.IH)
  next
    case (Some f)
    then have "gray f \<noteq> []" using assms by blast
    with Some assms show ?thesis
      by (simp add: sample_frame_def cvtColor_def estimate_motion_blur_def truediv_def)
  qed
qed

lemma metadata_fps_zero:
  "CAP_PROP_FPS v = 0 \<Longrightarrow>
   extract_metadata v = Inr \<lparr>fps = 0, frame_count = CAP_PROP_FRAME_COUNT v,
                            width = CAP_PROP_FRAME_WIDTH v, height = CAP_PROP_FRAME_HEIGHT v,
                            duration = 0\<rparr>"
  by (simp add: extract_metadata_def)

text \<open>
  C9, as amended. For a container that opens with a frame rate of 0 and whose frames all
  have the same, positive number of pixels (and a sampling interval that is not 0 when
  frames are sampled), feature extraction raises a division-by-zero error exactly when
  frame sampling is on and one of the sampled indices decodes, or scene detection finds a
  cut; otherwise it returns the features, with a duration of 0, no frame sample and no
  scene cut.
\<close>

theorem fps_zero_extraction:
  assumes "isOpened v" "CAP_PROP_FPS v = 0" "frames_wellformed v n"
    and "sample_frames \<longrightarrow> frame_interval \<noteq> 0"
  shows "extract_features_sync v extract_audio sample_frames frame_interval =
           (if (sample_frames \<and>
                list_ex (\<lambda>idx. read_at v idx \<noteq> None) (sampled_indices v frame_interval))
               \<or> has_cut (read_all v)
            then Inl ZeroDivisionError
            else Inr \<lparr>metadata = \<lparr>fps = 0, frame_count = CAP_PROP_FRAME_COUNT v,
                                   width = CAP_PROP_FRAME_WIDTH v,
                                   height = CAP_PROP_FRAME_HEIGHT v, duration = 0\<rparr>,
                      frames = (if sample_frames then Some [] else None),
                      scenes = [],
                      audio = (if extract_audio then Some (extract_audio_features v) else None)\<rparr>)"
proof -
  have n: "0 < n" and ss: "same_size n (read_all v)"
    and ne: "\<forall>idx f. read_at v idx = Some f \<longrightarrow> gray f \<noteq> []"
    using assms(3) by (auto simp: frames_wellformed_def)
  have ds: "detect_scenes v 0 =
              (if has_cut (read_all v) then Inl ZeroDivisionError
               else Inr (expected_cuts 0 (read_all v)))"
    using detect_scenes_cuts [OF assms(1) ss n, of 0] by simp
  have nocut: "\<not> has_cut (read_all v) \<Longrightarrow> expected_cuts 0 (read_all v) = []"
    by (auto simp: has_cut_def expected_cuts_def list_ex_iff filter_empty_conv split: list.splits)
  show ?thesis
  proof (cases sample_frames)
    case False
    then show ?thesis
      using assms(1) ds nocut
      by (simp add: extract_features_sync_def metadata_fps_zero [OF assms(2)])
  next
    case True
    then have fi: "frame_interval \<noteq> 0" using assms(4) by simp
    then have "\<exists>xs. py_range0 (CAP_PROP_FRAME_COUNT v) frame_interval = Inr xs"
      by (cases "0 < frame_interval") (simp_all add: py_range0_def)
    then obtain xs where xs: "py_range0 (CAP_PROP_FRAME_COUNT v) frame_interval = Inr xs"
      by blast
    then have si: "sampled_indices v frame_interval = xs"
      by (simp add: sampled_indices_def)
    show ?thesis
      using True assms(1) ds nocut xs si
      by (simp add: extract_features_sync_def metadata_fps_zero [OF assms(2)]
          sample_loop_fps_zero [OF assms(2) ne])
  qed
qed


lemma adjacent_nth:
  "set (adjacent k p fs) = {(k + i, (p # fs) ! i, fs ! i) | i. i < length fs}"
proof (induction fs arbitrary: k p)
  case Nil
  then show ?case by simp
next
  case (Cons f fs)
  have "{(k + i, (p # f # fs) ! i, (f # fs) ! i) | i. i < length (f # fs)}
        = insert (k, p, f) {(k + Suc j, (p # f # fs) ! Suc j, (f # fs) ! Suc j) | j. j < length fs}"
    (is "?L = ?R")
  proof
    show "?L \<subseteq> ?R"
    proof
      fix x assume "x \<in> ?L"
      then obtain i where i: "i < length (f # fs)" "x = (k + i, (p # f # fs) ! i, (f # fs) ! i)"
        by blast
      show "x \<in> ?R"
      proof (cases i)
        case 0
        with i show ?thesis by simp
      next
        case (Suc j)
        with i show ?thesis by auto
      qed
    qed
    show "?R \<subseteq> ?L"
    proof
      fix x assume "x \<in> ?R"
      then consider "x = (k, p, f)"
        | j where "j < length fs" "x = (k + Suc j, (p # f # fs) ! Suc j, (f # fs) ! Suc j)"
        by blast
      then show "x \<in> ?L"
      proof cases
        case 1
        have "0 < length (f # fs)" by simp
        moreover have "x = (k + 0, (p # f # fs) ! 0, (f # fs) ! 0)" using 1 by simp
        ultimately show ?thesis by blast
      next
        case 2
        then have "Suc j < length (f # fs)" by simp
        with 2 show ?thesis by blast
      qed
    qed
  qed
  then show ?case
    using Cons.IH [of "k + 1" f] by simp
qed

lemma expected_cut_indices:
  "i \<in> scene_frame_index ` set (expected_cuts fps0 fs) \<longleftrightarrow>
     0 < i \<and> i < length fs \<and> 30 < mean_absdiff (gray (fs ! (i - 1))) (gray (fs ! i))"
proof (cases fs)
  case Nil
  then show ?thesis by (simp add: expected_cuts_def)
next
  case (Cons f0 rest)
  have idx: "scene_frame_index (cut_of fps0 t) = fst t" for t
    by (cases t) (simp add: cut_of_def)
  have "i \<in> scene_frame_index ` set (expected_cuts fps0 fs) \<longleftrightarrow>
          (\<exists>t \<in> set (adjacent 1 f0 rest). exceeds t \<and> fst t = i)"
  proof
    assume "i \<in> scene_frame_index ` set (expected_cuts fps0 fs)"
    then obtain t where "t \<in> set (adjacent 1 f0 rest)" "exceeds t" "scene_frame_index (cut_of fps0 t) = i"
      using Cons by (auto simp: expected_cuts_def)
    then show "\<exists>t \<in> set (adjacent 1 f0 rest). exceeds t \<and> fst t = i"
      by (auto simp: idx)
  next
    assume "\<exists>t \<in> set (adjacent 1 f0 rest). exceeds t \<and> fst t = i"
    then obtain t where t: "t \<in> set (adjacent 1 f0 rest)" "exceeds t" "fst t = i" by blast
    then have "cut_of fps0 t \<in> set (expected_cuts fps0 fs)"
      using Cons by (simp add: expected_cuts_def)
    then have "scene_frame_index (cut_of fps0 t) \<in> scene_frame_index ` set (expected_cuts fps0 fs)"
      by (rule imageI)
    with t show "i \<in> scene_frame_index ` set (expected_cuts fps0 fs)"
      by (simp add: idx)
  qed
  also have "\<dots> \<longleftrightarrow> (\<exists>j < length rest. 1 + j = i \<and> exceeds (1 + j, (f0 # rest) ! j, rest ! j))"
    by (auto simp: adjacent_nth)
  also have "\<dots> \<longleftrightarrow> 0 < i \<and> i < length fs \<and>
                       30 < mean_absdiff (gray (fs ! (i - 1))) (gray (fs ! i))"
  proof
    assume "\<exists>j < length rest. 1 + j = i \<and> exceeds (1 + j, (f0 # rest) ! j, rest ! j)"
    then obtain j where j: "j < length rest" "1 + j = i"
      "exceeds (1 + j, (f0 # rest) ! j, rest ! j)" by blast
    then show "0 < i \<and> i < length fs \<and> 30 < mean_absdiff (gray (fs ! (i - 1))) (gray (fs ! i))"
      using Cons by (auto simp: exceeds_def)
  next
    assume a: "0 < i \<and> i < length fs \<and> 30 < mean_absdiff (gray (fs ! (i - 1))) (gray (fs ! i))"
    then obtain j where j: "i = Suc j" by (cases i) auto
    with a Cons have "j < length rest \<and> 1 + j = i \<and> exceeds (1 + j, (f0 # rest) ! j, rest ! j)"
      by (auto simp: exceeds_def)
    then show "\<exists>j < length rest. 1 + j = i \<and> exceeds (1 + j, (f0 # rest) ! j, rest ! j)"
      by blast
  qed
  finally show ?thesis .
qed

lemma detect_scenes_cut_indices:
  assumes "isOpened v" "same_size n (read_all v)" "0 < n" "fps0 \<noteq> 0"
  shows "\<exists>cuts. detect_scenes v fps0 = Inr cuts \<and>
           (\<forall>i. i \<in> scene_frame_index ` set cuts \<longleftrightarrow>
                  0 < i \<and> i < length (read_all v) \<and>
                  30 < mean_absdiff (gray (read_all v ! (i - 1))) (gray (read_all v ! i)))"
  using detect_scenes_cuts [OF assms(1-3), of fps0] assms(4)
  by (simp add: expected_cut_indices)

text \<open>
  C6. Two frames whose mean absolute difference is 50: with a frame rate of 0 scene
  detection raises a division-by-zero error instead of giving the cut at index 1 (with a
  frame rate of 25 it gives exactly that cut); two equal frames give no cut. For a frame
  rate other than 0, \<open>detect_scenes_cut_indices\<close> above is the property in general.
\<close>

theorem scene_cut_fps_zero_raises:
  "detect_scenes cut_video 0 = Inl ZeroDivisionError \<and>
   mean_absdiff (gray dark_frame) (gray bright_frame) = 50 \<and>
   detect_scenes cut_video 25
     = Inr [\<lparr>scene_frame_index = 1, scene_timestamp = 1 / 25, intensity = 50\<rparr>] \<and>
   detect_scenes uniform_video 0 = Inr [] \<and>
   detect_scenes uniform_video 25 = Inr []"
  by (simp add: detect_scenes_def cut_video_def uniform_video_def dark_frame_def bright_frame_def
      cvtColor_def absdiff_def np_mean_def scene_threshold_def truediv_def mean_absdiff_def)

text \<open>
  C7. The metadata of an opened container are computed without an error: the duration is
  the frame count divided by the frame rate when the frame rate is positive, and 0 when
  the frame rate is 0; and these are the metadata of the features when the extraction
  returns.
\<close>

theorem duration_guarded:
  "(0 < CAP_PROP_FPS v \<longrightarrow>
      (\<exists>md. extract_metadata v = Inr md \<and>
            duration md = of_int (CAP_PROP_FRAME_COUNT v) / CAP_PROP_FPS v)) \<and>
   (CAP_PROP_FPS v = 0 \<longrightarrow> (\<exists>md. extract_metadata v = Inr md \<and> duration md = 0)) \<and>
   (\<exists>md. extract_metadata v = Inr md) \<and>
   (extract_features_sync v extract_audio sample_frames frame_interval = Inr ft \<longrightarrow>
      extract_metadata v = Inr (metadata ft))"
  by (auto simp: extract_metadata_def extract_features_sync_def truediv_def Let_def
      split: if_splits sum.splits)

theorem duration_guarded_witness:
  "0 < CAP_PROP_FPS clip_25fps \<and> CAP_PROP_FPS uniform_video = 0 \<and>
   (\<exists>md. extract_metadata clip_25fps = Inr md \<and> duration md = 2) \<and>
   (\<exists>md. extract_metadata uniform_video = Inr md \<and> duration md = 0) \<and>
   extract_features_sync uniform_video True False 30 = Inr uniform_features \<and>
   extract_metadata uniform_video = Inr (metadata uniform_features)"
proof -
  have p: "0 < CAP_PROP_FPS clip_25fps" and z: "CAP_PROP_FPS uniform_video = 0"
    by (simp_all add: clip_25fps_def uniform_video_def)
  have q: "of_int (CAP_PROP_FRAME_COUNT clip_25fps) / CAP_PROP_FPS clip_25fps = 2"
    by (simp add: clip_25fps_def)
  have e: "extract_features_sync uniform_video True False 30 = Inr uniform_features"
    by (simp add: extract_features_sync_def extract_metadata_def detect_scenes_def
        uniform_video_def uniform_features_def dark_frame_def cvtColor_def absdiff_def
        np_mean_def scene_threshold_def extract_audio_features_def)
  have a: "\<exists>md. extract_metadata clip_25fps = Inr md \<and> duration md = 2"
    using p q duration_guarded [of clip_25fps True False 30 uniform_features] by simp
  have b: "\<exists>md. extract_metadata uniform_video = Inr md \<and> duration md = 0"
    using z duration_guarded [of uniform_video True False 30 uniform_features] by blast
  have c: "extract_metadata uniform_video = Inr (metadata uniform_features)"
    using e duration_guarded [of uniform_video True False 30 uniform_features] by blast
  from p z a b e c show ?thesis by blast
qed

theorem fps_zero_extraction_witness:
  "isOpened cut_video \<and> CAP_PROP_FPS cut_video = 0 \<and> frames_wellformed cut_video 4 \<and>
   extract_features_sync cut_video True True 30 = Inl ZeroDivisionError \<and>
   extract_features_sync cut_video True False 30 = Inl ZeroDivisionError \<and>
   isOpened uniform_video \<and> CAP_PROP_FPS uniform_video = 0 \<and> frames_wellformed uniform_video 4 \<and>
   extract_features_sync uniform_video True True 30 = Inl ZeroDivisionError \<and>
   extract_features_sync uniform_video True False 30 = Inr uniform_features"
proof -
  have o: "isOpened cut_video" "isOpened uniform_video"
    and z: "CAP_PROP_FPS cut_video = 0" "CAP_PROP_FPS uniform_video = 0"
    by (simp_all add: cut_video_def uniform_video_def)
  have w1: "frames_wellformed cut_video 4"
    by (simp add: frames_wellformed_def same_size_def cut_video_def dark_frame_def
        bright_frame_def)
  have w2: "frames_wellformed uniform_video 4"
    by (simp add: frames_wellformed_def same_size_def uniform_video_def dark_frame_def)
  have s1: "sampled_indices cut_video 30 = [0]" "sampled_indices uniform_video 30 = [0]"
    by (simp_all add: sampled_indices_def py_range0_def cut_video_def uniform_video_def)
  have c1: "has_cut (read_all cut_video)"
    by (simp add: has_cut_def exceeds_def mean_absdiff_def np_mean_def cut_video_def
        dark_frame_def bright_frame_def)
  have c2: "\<not> has_cut (read_all uniform_video)"
    by (simp add: has_cut_def exceeds_def mean_absdiff_def np_mean_def uniform_video_def
        dark_frame_def)
  have r1: "read_at cut_video 0 \<noteq> None" "read_at uniform_video 0 \<noteq> None"
    by (simp_all add: cut_video_def uniform_video_def)
  have a: "extract_features_sync cut_video True True 30 = Inl ZeroDivisionError"
    using fps_zero_extraction [OF o(1) z(1) w1, of True 30 True] s1 r1 by simp
  have b: "extract_features_sync cut_video True False 30 = Inl ZeroDivisionError"
    using fps_zero_extraction [OF o(1) z(1) w1, of False 30 True] c1 by simp
  have c: "extract_features_sync uniform_video True True 30 = Inl ZeroDivisionError"
    using fps_zero_extraction [OF o(2) z(2) w2, of True 30 True] s1 r1 by simp
  have d: "extract_features_sync uniform_video True False 30 = Inr uniform_features"
    using fps_zero_extraction [OF o(2) z(2) w2, of False 30 True] c2
    by (simp add: uniform_features_def uniform_video_def extract_audio_features_def)
  from o z w1 w2 a b c d show ?thesis by simp
qed

text \<open>
  C9 as stated fails: a container with a frame rate of 0 whose two frames decode and are
  equal. Without frame sampling the extraction returns the features; so it does with
  frame sampling when the container reports a frame count of 0.
\<close>

theorem fps_zero_no_raise_counterexample:
  "isOpened uniform_video \<and> CAP_PROP_FPS uniform_video = 0 \<and>
   length (read_all uniform_video) = 2 \<and>
   extract_features_sync uniform_video True False 30 = Inr uniform_features \<and>
   extract_features_sync (uniform_video\<lparr>CAP_PROP_FRAME_COUNT := 0\<rparr>) True True 30
     = Inr (uniform_features\<lparr>metadata := (metadata uniform_features)\<lparr>frame_count := 0\<rparr>,
                             frames := Some []\<rparr>)"
  by (simp add: extract_features_sync_def extract_metadata_def detect_scenes_def
      uniform_video_def uniform_features_def dark_frame_def cvtColor_def absdiff_def
      np_mean_def scene_threshold_def extract_audio_features_def py_range0_def)

section \<open>Properties of the router\<close>


lemma dropWhile_Cons_hd: "dropWhile (\<lambda>c. c \<noteq> x) s = b # rest \<Longrightarrow> b = x"
  by (induction s) (simp_all split: if_splits)










lemma local_result_provider:
  "analyze_with_local_llm w ft = Inr res \<Longrightarrow> provider res = ''local_llm''"
  by (auto simp: analyze_with_local_llm_def split: sum.splits)

lemma gemini_result_provider:
  "gemini_call w path ft = Some (Inr res) \<Longrightarrow> provider res = ''gemini''"
  by (auto simp: gemini_call_def split: sum.splits option.splits if_splits)

lemma gemini_call_succeeds:
  assumes "upload_file w path = Inr st"
    and "wait_processing st (get_file w) = Some (Inr st')" "st' \<noteq> FAILED"
    and "generate_content w (create_analysis_prompt ft) = Inr response"
    and "parse_gemini_response (json_loads w) (response_text response) = Inr a"
  shows "gemini_call w path ft =
           Some (Inr \<lparr>analysis = a, provider = ''gemini'', model = ''gemini-1.5-flash'',
                      tokens = (case usage_metadata response of Some n \<Rightarrow> n | None \<Rightarrow> 0)\<rparr>)"
  using assms by (simp add: gemini_call_def)

text \<open>
  A provider that stays in \<^verbatim>\<open>PROCESSING\<close> for all of its answers: the polling loop, and
  so the call, does not return.
\<close>

lemma wait_processing_stuck:
  "wait_processing PROCESSING (replicate n (Inr PROCESSING)) = None"
  by (induction n) simp_all

text \<open>
  C1, as amended. (a) With \<open>force_local\<close> and the local model available, the call is the
  call of the local model: when that call returns, the result's provider is the local
  one, and when it raises, the exception is the caller's. (b) With \<open>force_local\<close> and
  the local model unavailable, the call fails with \<^verbatim>\<open>No AI provider available\<close>. (c) Without
  \<open>force_local\<close>, with Gemini available and a Gemini call that returns, the result is
  Gemini's and its provider is the cloud one. (d) Without \<open>force_local\<close>, with Gemini
  available and a Gemini call that raises: when the local model is available the call is
  the call of the local model (its result has the local provider, its exception is the
  caller's); when it is not, the exception of the Gemini call is the caller's.
\<close>

theorem routing_cascade:
  "(force_local \<and> local_llm_available r \<longrightarrow>
      analyze_video r w path ft force_local = Some (analyze_with_local_llm w ft)) \<and>
   (analyze_with_local_llm w ft = Inr res \<longrightarrow> provider res = ''local_llm'') \<and>
   (force_local \<and> \<not> local_llm_available r \<longrightarrow>
      analyze_video r w path ft force_local = Some (Inl (Exception ''No AI provider available''))) \<and>
   (\<not> force_local \<and> gemini_available r \<and> gemini_call w path ft = Some (Inr res') \<longrightarrow>
      analyze_video r w path ft force_local = Some (Inr res') \<and> provider res' = ''gemini'') \<and>
   (\<not> force_local \<and> gemini_available r \<and> gemini_call w path ft = Some (Inl e) \<and>
    local_llm_available r \<longrightarrow>
      analyze_video r w path ft force_local = Some (analyze_with_local_llm w ft)) \<and>
   (\<not> force_local \<and> gemini_available r \<and> gemini_call w path ft = Some (Inl e) \<and>
    \<not> local_llm_available r \<longrightarrow>
      analyze_video r w path ft force_local = Some (Inl e))"
  by (auto simp: analyze_video_def analyze_with_gemini_def
      dest: local_result_provider gemini_result_provider)


lemma local_up: "analyze_with_local_llm providers_up uniform_features = Inr local_answer"
  by (simp add: analyze_with_local_llm_def providers_up_def parse_local_response_def
      re_search_braces_def local_answer_def)

lemma local_cloud_down:
  "analyze_with_local_llm providers_cloud_down uniform_features = Inr local_answer"
  by (simp add: analyze_with_local_llm_def providers_cloud_down_def providers_up_def
      parse_local_response_def re_search_braces_def local_answer_def)

lemma gemini_up: "gemini_call providers_up ''clip.mp4'' uniform_features = Some (Inr cloud_answer)"
  by (simp add: gemini_call_def providers_up_def parse_gemini_response_def re_search_braces_def
      lenient_loads_def object_opens_def json_blank_def cloud_answer_def)

lemma gemini_cloud_down:
  "gemini_call providers_cloud_down ''clip.mp4'' uniform_features
     = Some (Inl (Exception ''upload failed''))"
  by (simp add: gemini_call_def providers_cloud_down_def)

theorem routing_cascade_witness:
  "analyze_video both_available providers_up ''clip.mp4'' uniform_features True
     = Some (Inr local_answer) \<and>
   provider local_answer = ''local_llm'' \<and>
   analyze_video cloud_only providers_up ''clip.mp4'' uniform_features True
     = Some (Inl (Exception ''No AI provider available'')) \<and>
   analyze_video both_available providers_up ''clip.mp4'' uniform_features False
     = Some (Inr cloud_answer) \<and>
   provider cloud_answer = ''gemini'' \<and>
   analyze_video both_available providers_cloud_down ''clip.mp4'' uniform_features False
     = Some (Inr local_answer) \<and>
   analyze_video cloud_only providers_cloud_down ''clip.mp4'' uniform_features False
     = Some (Inl (Exception ''upload failed''))"
proof -
  have f: "gemini_available both_available" "local_llm_available both_available"
    "gemini_available cloud_only" "\<not> local_llm_available cloud_only"
    by (simp_all add: both_available_def cloud_only_def)
  have a: "analyze_video both_available providers_up ''clip.mp4'' uniform_features True
             = Some (Inr local_answer) \<and> provider local_answer = ''local_llm''"
    using f local_up
      routing_cascade [of True both_available providers_up "''clip.mp4''" uniform_features
        local_answer]
    by simp
  have b: "analyze_video cloud_only providers_up ''clip.mp4'' uniform_features True
             = Some (Inl (Exception ''No AI provider available''))"
    using f routing_cascade [of True cloud_only providers_up "''clip.mp4''" uniform_features]
    by simp
  have c: "analyze_video both_available providers_up ''clip.mp4'' uniform_features False
             = Some (Inr cloud_answer) \<and> provider cloud_answer = ''gemini''"
    using f gemini_up
      routing_cascade [of False both_available providers_up "''clip.mp4''" uniform_features
        local_answer cloud_answer]
    by simp
  have d: "analyze_video both_available providers_cloud_down ''clip.mp4'' uniform_features False
             = Some (Inr local_answer)"
    using f gemini_cloud_down local_cloud_down
      routing_cascade [of False both_available providers_cloud_down "''clip.mp4''"
        uniform_features local_answer cloud_answer "Exception ''upload failed''"]
    by simp
  have e: "analyze_video cloud_only providers_cloud_down ''clip.mp4'' uniform_features False
             = Some (Inl (Exception ''upload failed''))"
    using f gemini_cloud_down
      routing_cascade [of False cloud_only providers_cloud_down "''clip.mp4''"
        uniform_features local_answer cloud_answer "Exception ''upload failed''"]
    by simp
  from a b c d e show ?thesis by simp
qed

text \<open>
  C1 as stated fails where the local model raises: both providers are available, the
  upload to Gemini raises, the fallback call of the local model raises too, and its
  exception reaches the caller; the same exception reaches the caller under
  \<open>force_local\<close>.
\<close>

theorem local_failure_surfaces_counterexample:
  "gemini_available both_available \<and> local_llm_available both_available \<and>
   gemini_call providers_both_down ''clip.mp4'' uniform_features
     = Some (Inl (Exception ''upload failed'')) \<and>
   analyze_video both_available providers_both_down ''clip.mp4'' uniform_features False
     = Some (Inl (Exception ''context window exceeded'')) \<and>
   analyze_video both_available providers_both_down ''clip.mp4'' uniform_features True
     = Some (Inl (Exception ''context window exceeded''))"
  by (simp add: analyze_video_def analyze_with_gemini_def gemini_call_def
      analyze_with_local_llm_def both_available_def providers_both_down_def
      providers_cloud_down_def providers_up_def)

end
